theory Spec2Isabelle
  imports Main "HOL-Library.Word"
begin

section \<open>JavaScript strings\<close>

text \<open>
  A JavaScript string is a sequence of UTF-16 code units; \<open>length\<close>, \<open>split\<close>,
  \<open>startsWith\<close>, \<open>includes\<close>, \<open>trim\<close> and the regular expression of the chat
  endpoint all work on code units. \<open>lit\<close> embeds an ASCII literal of the source.
\<close>

type_synonym code_unit = "16 word"
type_synonym js_string = "code_unit list"

definition lit :: "string \<Rightarrow> js_string" where
  "lit s = map of_char s"

definition nl :: code_unit where
  "nl = 0x0A"

text \<open>
  \<open>s.split('\n')\<close>: the pieces between separators; the empty string gives one empty
  piece. The result is never empty, so the first branch of the \<open>case\<close> is never taken.
\<close>

fun js_split :: "code_unit \<Rightarrow> js_string \<Rightarrow> js_string list" where
  "js_split sep [] = [] # []"
| "js_split sep (c # cs) =
     (if c = sep then [] # js_split sep cs
      else (case js_split sep cs of
              [] \<Rightarrow> [c] # []
            | l # ls \<Rightarrow> (c # l) # ls))"

text \<open>\<open>xs.join(sep)\<close>.\<close>

fun js_join :: "js_string \<Rightarrow> js_string list \<Rightarrow> js_string" where
  "js_join sep [] = []"
| "js_join sep [x] = x"
| "js_join sep (x # y # ys) = x @ sep @ js_join sep (y # ys)"

text \<open>\<open>s.startsWith(p)\<close> and \<open>s.includes(sub)\<close>.\<close>

definition js_starts_with :: "js_string \<Rightarrow> js_string \<Rightarrow> bool" where
  "js_starts_with s p \<longleftrightarrow> take (length p) s = p"

fun js_includes :: "js_string \<Rightarrow> js_string \<Rightarrow> bool" where
  "js_includes [] sub = (sub = [])"
| "js_includes (c # cs) sub = (js_starts_with (c # cs) sub \<or> js_includes cs sub)"

text \<open>
  \<open>s.trim()\<close> removes the WhiteSpace and LineTerminator code points of ECMAScript from
  both ends.
\<close>

definition is_white_space :: "code_unit \<Rightarrow> bool" where
  "is_white_space c \<longleftrightarrow>
     (0x09 \<le> c \<and> c \<le> 0x0D) \<or> c = 0x20 \<or> c = 0xA0 \<or> c = 0x1680 \<or>
     (0x2000 \<le> c \<and> c \<le> 0x200A) \<or> c = 0x2028 \<or> c = 0x2029 \<or> c = 0x202F \<or>
     c = 0x205F \<or> c = 0x3000 \<or> c = 0xFEFF"

definition js_trim :: "js_string \<Rightarrow> js_string" where
  "js_trim s = rev (dropWhile is_white_space (rev (dropWhile is_white_space s)))"

section \<open>The tagged-line pattern\<close>

text \<open>
  \<open>line.match(/^\[([\w_]+)\]: (.+)$/)\<close>. The expression has no flags: \<open>^\<close> and \<open>$\<close> are
  the ends of the line, \<open>\w\<close> is \<open>[A-Za-z0-9_]\<close>, and \<open>.\<close> is any code unit but the
  line terminators LF, CR, U+2028 and U+2029. A word character is never \<open>]\<close>, so the
  greedy first group is the longest run of word characters after the bracket and the
  second group is the rest of the line. The result holds the two groups.
\<close>

definition is_word_char :: "code_unit \<Rightarrow> bool" where
  "is_word_char c \<longleftrightarrow>
     (0x41 \<le> c \<and> c \<le> 0x5A) \<or> (0x61 \<le> c \<and> c \<le> 0x7A) \<or>
     (0x30 \<le> c \<and> c \<le> 0x39) \<or> c = 0x5F"

definition is_line_terminator :: "code_unit \<Rightarrow> bool" where
  "is_line_terminator c \<longleftrightarrow> c = 0x0A \<or> c = 0x0D \<or> c = 0x2028 \<or> c = 0x2029"

definition agent_match :: "js_string \<Rightarrow> (js_string \<times> js_string) option" where
  "agent_match line =
     (case line of
        [] \<Rightarrow> None
      | c # rest \<Rightarrow>
          if c = 0x5B then
            (let name = takeWhile is_word_char rest;
                 after = dropWhile is_word_char rest;
                 text = drop 3 after
             in if name = [] then None
                else if take 3 after = lit '']: '' then
                  (if text = [] then None
                   else if list_ex is_line_terminator text then None
                   else Some (name, text))
                else None)
          else None)"

section \<open>The response composer\<close>

record agent_response =
  agent :: js_string
  message :: js_string

text \<open>One round of the \<open>for (const line of lines)\<close> loop, and the loop.\<close>

definition push_match :: "agent_response list \<Rightarrow> js_string \<Rightarrow> agent_response list" where
  "push_match agentResponses line =
     (case agent_match line of
        None \<Rightarrow> agentResponses
      | Some (a, m) \<Rightarrow>
          if m = lit ''None'' then agentResponses
          else agentResponses @ [\<lparr>agent = a, message = m\<rparr>])"

definition extract_responses :: "js_string list \<Rightarrow> agent_response list" where
  "extract_responses lines = foldl push_match [] lines"

text \<open>The filter of the raw fallback.\<close>

definition keep_raw_line :: "js_string \<Rightarrow> bool" where
  "keep_raw_line line \<longleftrightarrow>
     \<not> js_starts_with line (lit ''User:'') \<and>
     \<not> js_includes line (lit ''UserWarning'') \<and>
     \<not> js_includes line (lit ''INFO'') \<and>
     \<not> js_includes line (lit ''DEBUG'') \<and>
     \<not> js_includes line (lit ''Warning:'') \<and>
     length (js_trim line) > 0"

definition raw_fallback :: "js_string \<Rightarrow> js_string" where
  "raw_fallback dataString = js_join [nl] (filter keep_raw_line (js_split nl dataString))"

definition combined_messages :: "agent_response list \<Rightarrow> js_string" where
  "combined_messages agentResponses =
     js_join [nl, nl]
       (map message
          (filter (\<lambda>r. message r \<noteq> lit ''None'' \<and> length (message r) > 10) agentResponses))"

text \<open>\<open>formattedResponse\<close> as the close callback leaves it before \<open>res.json\<close>.\<close>

definition formatted_response :: "js_string \<Rightarrow> js_string" where
  "formatted_response dataString =
     (let lines = js_split nl dataString;
          agentResponses = extract_responses lines
      in if length agentResponses > 0 then
           (let lastResponse = last agentResponses;
                marketData = filter (\<lambda>r. agent r = lit ''CAISO_Market'') agentResponses;
                weatherData = filter (\<lambda>r. agent r = lit ''Weather'') agentResponses
            in if length marketData > 0 \<or> length weatherData > 0
               then combined_messages agentResponses
               else message lastResponse)
         else raw_fallback dataString)"

definition no_response :: js_string where
  "no_response = lit ''No response generated''"

text \<open>\<open>formattedResponse || 'No response generated'\<close>: the empty string is falsy.\<close>

definition composed_reply :: "js_string \<Rightarrow> js_string" where
  "composed_reply dataString =
     (let formattedResponse = formatted_response dataString
      in if formattedResponse = [] then no_response else formattedResponse)"

section \<open>The chat endpoint\<close>

text \<open>
  JavaScript values as a JSON body holds them. A number is its IEEE 754 double, kept as
  its 64 bits; only \<open>ToBoolean\<close> reads it here. An object lists its own properties,
  each name once.
\<close>

datatype js_value =
    JUndefined
  | JNull
  | JBool bool
  | JNumber "64 word"
  | JString js_string
  | JArray "js_value list"
  | JObject "(js_string \<times> js_value) list"

text \<open>\<open>ToBoolean\<close>: false for undefined, null, false, +0, -0, NaN and the empty string.\<close>

fun to_boolean :: "js_value \<Rightarrow> bool" where
  "to_boolean JUndefined = False"
| "to_boolean JNull = False"
| "to_boolean (JBool b) = b"
| "to_boolean (JNumber w) =
     (let magnitude = take_bit 63 w
      in if magnitude = 0 then False
         else if magnitude > 0x7FF0000000000000 then False
         else True)"
| "to_boolean (JString s) = (s \<noteq> [])"
| "to_boolean (JArray xs) = True"
| "to_boolean (JObject kvs) = True"

datatype js_error = TypeError

text \<open>
  \<open>const { message } = req.body\<close>: destructuring undefined or null throws; an object gives
  its property, or undefined when it has none of that name; no other value has one.
\<close>

fun get_message :: "js_value \<Rightarrow> js_error + js_value" where
  "get_message JUndefined = Inl TypeError"
| "get_message JNull = Inl TypeError"
| "get_message (JObject kvs) =
     (case map_of kvs (lit ''message'') of
        None \<Rightarrow> Inr JUndefined
      | Some v \<Rightarrow> Inr v)"
| "get_message v = Inr JUndefined"

text \<open>
  What a request does, in order: the process it spawns, what it logs with \<open>console.error\<close>,
  the response it sends. \<open>Unhandled_error\<close> is an \<open>'error'\<close> event reaching an emitter
  with no \<open>'error'\<close> listener, which Node throws outside every handler.
\<close>

datatype log_entry =
    Exit_code_log "int option"
  | Python_error_log js_string
  | Backend_error_log

datatype json_body = Error_body js_string | Response_body js_string

datatype effect =
    Spawn js_string "js_value list"
  | Console_error log_entry
  | Respond nat json_body
  | Unhandled_error

text \<open>
  The \<open>'close'\<close> listener. The exit code is a number, or null when a signal ended the
  process; \<open>code !== 0\<close> is strict.
\<close>

definition on_close :: "int option \<Rightarrow> js_string \<Rightarrow> js_string \<Rightarrow> effect list" where
  "on_close code dataString errorString =
     (if code \<noteq> Some 0 then
        [Console_error (Exit_code_log code),
         Console_error (Python_error_log errorString),
         Respond 500 (Error_body (lit ''Failed to process request. Please check server logs.''))]
      else [Respond 200 (Response_body (composed_reply dataString))])"

text \<open>
  The events of the child process, each chunk already decoded by \<open>data.toString()\<close>. The
  handler listens to \<open>'data'\<close> on both streams and to \<open>'close'\<close>, which comes last; it
  registers no \<open>'error'\<close> listener. A process whose events stop without \<open>'close'\<close> is
  still running and the request has no response yet.
\<close>

datatype proc_event =
    Stdout_data js_string
  | Stderr_data js_string
  | Close_event "int option"
  | Error_event

fun child_events :: "proc_event list \<Rightarrow> js_string \<Rightarrow> js_string \<Rightarrow> effect list" where
  "child_events [] dataString errorString = []"
| "child_events (Stdout_data d # evs) dataString errorString =
     child_events evs (dataString @ d) errorString"
| "child_events (Stderr_data d # evs) dataString errorString =
     child_events evs dataString (errorString @ d)"
| "child_events (Close_event code # evs) dataString errorString =
     on_close code dataString errorString"
| "child_events (Error_event # evs) dataString errorString = [Unhandled_error]"

text \<open>What \<open>spawn\<close> did: it threw, or it returned a child that then emits events.\<close>

datatype spawn_result = Spawn_throws | Child_process "proc_event list"

definition python_path :: "js_string option \<Rightarrow> js_string" where
  "python_path env_PYTHON_PATH =
     (case env_PYTHON_PATH of
        None \<Rightarrow> lit ''python''
      | Some p \<Rightarrow> if p = [] then lit ''python'' else p)"

definition caught :: "effect list" where
  "caught = [Console_error Backend_error_log, Respond 500 (Error_body (lit ''Failed to get response''))]"

definition chat_handler :: "js_value \<Rightarrow> js_string option \<Rightarrow> spawn_result \<Rightarrow> effect list" where
  "chat_handler body env_PYTHON_PATH spawned =
     (case get_message body of
        Inl e \<Rightarrow> caught
      | Inr msg \<Rightarrow>
          if \<not> to_boolean msg then [Respond 400 (Error_body (lit ''Message is required''))]
          else
            Spawn (python_path env_PYTHON_PATH) [JString (lit ''agents/gridpilot_agent.py''), msg] #
            (case spawned of
               Spawn_throws \<Rightarrow> caught
             | Child_process evs \<Rightarrow> child_events evs [] []))"

section \<open>The vocabulary of the specification\<close>

text \<open>
  The AgentMessage sequence of a RawOutput, in the specification's words: the lines in
  order, each matching line giving its identifier and text, a match with the text
  \<open>None\<close> discarded.
\<close>

definition none_text :: js_string where
  "none_text = lit ''None''"

definition line_message :: "js_string \<Rightarrow> (js_string \<times> js_string) option" where
  "line_message line =
     (case agent_match line of
        None \<Rightarrow> None
      | Some (a, t) \<Rightarrow> if t = none_text then None else Some (a, t))"

definition agent_messages :: "js_string \<Rightarrow> (js_string \<times> js_string) list" where
  "agent_messages rawOutput = List.map_filter line_message (js_split nl rawOutput)"

definition data_bearing :: "js_string \<Rightarrow> bool" where
  "data_bearing agentName \<longleftrightarrow> agentName = lit ''CAISO_Market'' \<or> agentName = lit ''Weather''"

definition qualifying :: "js_string \<Rightarrow> bool" where
  "qualifying text \<longleftrightarrow> text \<noteq> none_text \<and> length text > 10"

definition blank_line_join :: "js_string list \<Rightarrow> js_string" where
  "blank_line_join texts = js_join [nl, nl] texts"

definition to_response :: "js_string \<times> js_string \<Rightarrow> agent_response" where
  "to_response m = \<lparr>agent = fst m, message = snd m\<rparr>"

text \<open>
  RawOutput and ErrorOutput: the chunks of each stream in the order they came. A data
  event is a chunk of either stream.
\<close>

fun is_data_event :: "proc_event \<Rightarrow> bool" where
  "is_data_event (Stdout_data d) = True"
| "is_data_event (Stderr_data d) = True"
| "is_data_event (Close_event code) = False"
| "is_data_event Error_event = False"

fun stdout_text :: "proc_event list \<Rightarrow> js_string" where
  "stdout_text [] = []"
| "stdout_text (Stdout_data d # evs) = d @ stdout_text evs"
| "stdout_text (ev # evs) = stdout_text evs"

fun stderr_text :: "proc_event list \<Rightarrow> js_string" where
  "stderr_text [] = []"
| "stderr_text (Stderr_data d # evs) = d @ stderr_text evs"
| "stderr_text (ev # evs) = stderr_text evs"

section \<open>Outputs used as examples\<close>

definition scenario1 :: js_string where
  "scenario1 =
     lit ''[Weather]: Cloud cover 85%'' @ [nl] @
     lit ''[CAISO_Market]: Load down 300MW'' @ [nl] @
     lit ''[Coordinator]: Deviation confirmed.''"

definition scenario2 :: js_string where
  "scenario2 = lit ''[Coordinator]: Deviation confirmed.''"

definition scenario3 :: js_string where
  "scenario3 =
     lit ''INFO: starting up'' @ [nl] @ lit ''User: hello'' @ [nl] @
     lit ''Plain diagnostic line'' @ [nl]"

definition short_market :: js_string where
  "short_market = lit ''[CAISO_Market]: Load flat''"

definition short_weather :: js_string where
  "short_weather = lit ''[Weather]: Cloudy''"

definition weather_none :: js_string where
  "weather_none = lit ''[Weather]: None''"

definition coordinator_none :: js_string where
  "coordinator_none = lit ''[Coordinator]: None'' @ [nl] @ lit ''plain text''"

definition padded :: js_string where
  "padded =
     lit '' first '' @ [nl] @ lit ''DEBUG noise'' @ [nl] @
     [0x09] @ lit ''second'' @ [0x0D] @ [nl] @ lit ''  ''"

definition hello_body :: js_value where
  "hello_body = JObject [(lit ''message'', JString (lit ''hello''))]"

definition empty_message_body :: js_value where
  "empty_message_body = JObject [(lit ''message'', JString [])]"

definition chunked :: "proc_event list" where
  "chunked =
     [Stdout_data (lit ''[Coordinator]: Devi''), Stderr_data (lit ''UserWarning: slow''),
      Stdout_data (lit ''ation confirmed.'')]"

definition unchunked :: "proc_event list" where
  "unchunked = [Stdout_data (lit ''[Coordinator]: Deviation confirmed.'')]"

section \<open>Splitting and joining\<close>

lemma js_split_not_Nil: "js_split sep s \<noteq> []"
  by (induction s) (auto split: list.splits)

lemma js_split_no_sep: "l \<in> set (js_split sep s) \<Longrightarrow> sep \<notin> set l"
  by (induction s arbitrary: l) (auto split: list.splits if_splits)

lemma js_split_plain: "sep \<notin> set x \<Longrightarrow> js_split sep x = [x]"
  by (induction x) auto

lemma js_split_append_sep:
  "sep \<notin> set x \<Longrightarrow> js_split sep (x @ sep # rest) = x # js_split sep rest"
  by (induction x) auto

lemma js_split_join:
  "ls \<noteq> [] \<Longrightarrow> \<forall>l\<in>set ls. sep \<notin> set l \<Longrightarrow> js_split sep (js_join [sep] ls) = ls"
proof (induction "[sep]" ls rule: js_join.induct)
  case 1
  then show ?case by simp
next
  case (2 x)
  then show ?case by (simp add: js_split_plain)
next
  case (3 x y ys)
  then show ?case by (simp add: js_split_append_sep)
qed

section \<open>The extraction loop and the AgentMessage sequence\<close>

lemma push_match_line_message:
  "push_match acc l = acc @ map to_response (List.map_filter line_message [l])"
  by (cases "agent_match l")
     (auto simp: push_match_def line_message_def none_text_def to_response_def map_filter_simps)

lemma foldl_push_match:
  "foldl push_match acc lines = acc @ map to_response (List.map_filter line_message lines)"
proof (induction lines arbitrary: acc)
  case Nil
  then show ?case by (simp add: map_filter_simps)
next
  case (Cons l ls)
  have "foldl push_match acc (l # ls) = foldl push_match (push_match acc l) ls"
    by simp
  also have "\<dots> = push_match acc l @ map to_response (List.map_filter line_message ls)"
    by (rule Cons.IH)
  also have "\<dots> = acc @ map to_response (List.map_filter line_message (l # ls))"
    unfolding push_match_line_message by (simp add: map_filter_simps split: option.splits)
  finally show ?case .
qed

lemma extract_responses_messages:
  "extract_responses (js_split nl d) = map to_response (agent_messages d)"
  by (simp add: extract_responses_def agent_messages_def foldl_push_match)

lemma agent_match_text_nonempty: "agent_match l = Some (a, t) \<Longrightarrow> t \<noteq> []"
  by (auto simp: agent_match_def Let_def split: list.splits if_splits)

lemma line_message_text_nonempty: "line_message l = Some (a, t) \<Longrightarrow> t \<noteq> []"
  by (auto simp: line_message_def dest: agent_match_text_nonempty split: option.splits if_splits)

lemma agent_messages_text_nonempty: "(a, t) \<in> set (agent_messages d) \<Longrightarrow> t \<noteq> []"
  by (auto simp: agent_messages_def map_filter_def dest: line_message_text_nonempty)

lemma qualifying_texts:
  "map message (filter (\<lambda>r. message r \<noteq> lit ''None'' \<and> length (message r) > 10) (map to_response ms))
     = filter qualifying (map snd ms)"
  by (induction ms) (auto simp: to_response_def qualifying_def none_text_def)

text \<open>
  The candidate reply of the close callback, read off the AgentMessage sequence.
\<close>

lemma formatted_response_messages:
  "formatted_response d =
     (if agent_messages d = [] then raw_fallback d
      else if list_ex (\<lambda>m. data_bearing (fst m)) (agent_messages d)
           then blank_line_join (filter qualifying (map snd (agent_messages d)))
           else snd (last (agent_messages d)))"
proof -
  let ?ms = "agent_messages d"
  have a: "filter (\<lambda>r. agent r = n) (map to_response ?ms) \<noteq> [] \<longleftrightarrow> list_ex (\<lambda>m. fst m = n) ?ms" for n
    by (auto simp: filter_empty_conv list_ex_iff to_response_def)
  have c: "?ms \<noteq> [] \<Longrightarrow> message (last (map to_response ?ms)) = snd (last ?ms)"
    by (simp add: last_map to_response_def)
  have e: "list_ex (\<lambda>m. data_bearing (fst m)) ?ms \<longleftrightarrow>
            list_ex (\<lambda>m. fst m = lit ''CAISO_Market'') ?ms \<or> list_ex (\<lambda>m. fst m = lit ''Weather'') ?ms"
    by (auto simp: list_ex_iff data_bearing_def)
  show ?thesis
  proof (cases "?ms = []")
    case True
    then show ?thesis
      by (simp add: formatted_response_def Let_def extract_responses_messages)
  next
    case False
    have f: "formatted_response d =
       (if filter (\<lambda>r. agent r = lit ''CAISO_Market'') (map to_response ?ms) \<noteq> [] \<or>
           filter (\<lambda>r. agent r = lit ''Weather'') (map to_response ?ms) \<noteq> []
        then blank_line_join (filter qualifying (map snd ?ms))
        else snd (last ?ms))"
      using False c
      by (simp add: formatted_response_def Let_def extract_responses_messages
            combined_messages_def blank_line_join_def qualifying_texts)
    show ?thesis
      unfolding f a e using False by simp
  qed
qed

section \<open>The language of the tagged-line pattern\<close>

lemma lit_close: "lit '']: '' = [0x5D, 0x3A, 0x20]"
  by (simp add: lit_def)

lemma not_word_close: "\<not> is_word_char 0x5D"
  by (simp add: is_word_char_def)

text \<open>
  \<open>agent_match\<close> accepts exactly the lines that are a bracket, a non-empty identifier
  of word characters, \<open>]: \<close> and a non-empty text free of line terminators, and returns
  that identifier and that text.
\<close>

lemma agent_match_Some_iff:
  "agent_match line = Some (n, t) \<longleftrightarrow>
     line = 0x5B # n @ lit '']: '' @ t \<and> n \<noteq> [] \<and> list_all is_word_char n \<and>
     t \<noteq> [] \<and> \<not> list_ex is_line_terminator t"
proof
  assume m: "agent_match line = Some (n, t)"
  then obtain rest where line: "line = 0x5B # rest"
    by (auto simp: agent_match_def split: list.splits if_splits)
  from m line have n: "n = takeWhile is_word_char rest" and n0: "n \<noteq> []"
    and sep: "take 3 (dropWhile is_word_char rest) = lit '']: ''"
    and t: "t = drop 3 (dropWhile is_word_char rest)" and t0: "t \<noteq> []"
    and lt: "\<not> list_ex is_line_terminator t"
    by (auto simp: agent_match_def Let_def split: if_splits)
  have "rest = takeWhile is_word_char rest @ dropWhile is_word_char rest"
    by simp
  also have "dropWhile is_word_char rest = lit '']: '' @ t"
    using sep t by (metis append_take_drop_id)
  finally have "rest = n @ lit '']: '' @ t"
    using n by simp
  moreover have "list_all is_word_char n"
    unfolding n list_all_iff by (auto dest: set_takeWhileD)
  ultimately show "line = 0x5B # n @ lit '']: '' @ t \<and> n \<noteq> [] \<and> list_all is_word_char n \<and>
     t \<noteq> [] \<and> \<not> list_ex is_line_terminator t"
    using line n0 t0 lt by simp
next
  assume a: "line = 0x5B # n @ lit '']: '' @ t \<and> n \<noteq> [] \<and> list_all is_word_char n \<and>
     t \<noteq> [] \<and> \<not> list_ex is_line_terminator t"
  then have w: "\<And>x. x \<in> set n \<Longrightarrow> is_word_char x"
    by (simp add: list_all_iff)
  have tw: "takeWhile is_word_char (n @ lit '']: '' @ t) = n"
    using w by (simp add: takeWhile_append2 lit_close not_word_close)
  have dw: "dropWhile is_word_char (n @ lit '']: '' @ t) = lit '']: '' @ t"
    using w by (simp add: dropWhile_append2 lit_close not_word_close)
  have l3: "length (lit '']: '') = 3"
    by (simp add: lit_def)
  show "agent_match line = Some (n, t)"
    using a by (simp add: agent_match_def tw dw l3)
qed

section \<open>The raw fallback\<close>

lemma js_starts_with_iff: "js_starts_with s p \<longleftrightarrow> (\<exists>post. s = p @ post)"
  unfolding js_starts_with_def by (metis append_eq_conv_conj append_take_drop_id)

text \<open>
  \<open>js_includes\<close> holds exactly when the second string occurs somewhere in the first.
\<close>

lemma js_includes_iff: "js_includes s sub \<longleftrightarrow> (\<exists>pre post. s = pre @ sub @ post)"
proof (induction s)
  case Nil
  then show ?case by simp
next
  case (Cons c cs)
  have "(\<exists>pre post. c # cs = pre @ sub @ post) \<longleftrightarrow>
        (\<exists>post. c # cs = sub @ post) \<or> (\<exists>pre post. cs = pre @ sub @ post)"
    by (auto simp: Cons_eq_append_conv)
  then show ?case
    by (simp add: Cons.IH js_starts_with_iff)
qed

lemma keep_raw_line_nonempty: "keep_raw_line l \<Longrightarrow> l \<noteq> []"
  by (auto simp: keep_raw_line_def js_trim_def)

lemma js_join_nonempty:
  "xs \<noteq> [] \<Longrightarrow> \<forall>x\<in>set xs. x \<noteq> [] \<Longrightarrow> js_join sep xs \<noteq> []"
  by (induction sep xs rule: js_join.induct) auto

lemma agent_messages_empty_iff:
  "agent_messages d = [] \<longleftrightarrow> (\<forall>l\<in>set (js_split nl d). line_message l = None)"
  by (simp only: agent_messages_def map_filter_def map_is_Nil_conv filter_empty_conv not_not)

section \<open>Replies built from agent messages\<close>

text \<open>
  Claim C1, as amended. When the AgentMessage sequence of a RawOutput holds a message of
  the market-data agent \<open>CAISO_Market\<close> or of the weather-data agent \<open>Weather\<close>, the
  ComposedReply is the texts of all AgentMessages that are not \<open>None\<close> and are longer than
  10 code units, in line order, joined by blank lines; when that join is empty the
  ComposedReply is \<open>No response generated\<close>.
\<close>

theorem data_bearing_reply:
  assumes "list_ex (\<lambda>m. data_bearing (fst m)) (agent_messages rawOutput)"
  shows "composed_reply rawOutput =
           (let joined = blank_line_join (filter qualifying (map snd (agent_messages rawOutput)))
            in if joined = [] then no_response else joined)"
proof -
  from assms have "agent_messages rawOutput \<noteq> []"
    by auto
  with assms show ?thesis
    by (simp add: composed_reply_def formatted_response_messages Let_def)
qed

text \<open>
  Scenario 1 of the specification: all three texts pass the filter and are joined.
\<close>

theorem data_bearing_reply_witness:
  "list_ex (\<lambda>m. data_bearing (fst m)) (agent_messages scenario1) \<and>
   composed_reply scenario1 =
     lit ''Cloud cover 85%'' @ [nl, nl] @ lit ''Load down 300MW'' @ [nl, nl] @
     lit ''Deviation confirmed.''"
proof -
  have h: "list_ex (\<lambda>m. data_bearing (fst m)) (agent_messages scenario1)"
    by code_simp
  have j: "(let joined = blank_line_join (filter qualifying (map snd (agent_messages scenario1)))
            in if joined = [] then no_response else joined) =
           lit ''Cloud cover 85%'' @ [nl, nl] @ lit ''Load down 300MW'' @ [nl, nl] @
           lit ''Deviation confirmed.''"
    by code_simp
  show ?thesis
    using data_bearing_reply [OF h] h j by simp
qed

text \<open>
  Without the final guard the statement fails: the only message is from the market-data
  agent, its text has 9 code units, the join is empty, and the reply is the sentinel, not
  the empty join.
\<close>

theorem data_bearing_reply_counterexample:
  "agent_messages short_market = [(lit ''CAISO_Market'', lit ''Load flat'')] \<and>
   data_bearing (lit ''CAISO_Market'') \<and>
   blank_line_join (filter qualifying (map snd (agent_messages short_market))) = [] \<and>
   composed_reply short_market = no_response \<and>
   composed_reply short_market \<noteq>
     blank_line_join (filter qualifying (map snd (agent_messages short_market)))"
  by code_simp

text \<open>
  Claim C2. When the AgentMessage sequence of a RawOutput is non-empty and holds no
  message of a data-bearing agent, the ComposedReply is the text of the last AgentMessage.
  The text of a match is never empty, so the final guard leaves it alone.
\<close>

theorem last_message_reply:
  assumes "agent_messages rawOutput \<noteq> []"
    and "list_all (\<lambda>m. \<not> data_bearing (fst m)) (agent_messages rawOutput)"
  shows "composed_reply rawOutput = snd (last (agent_messages rawOutput))"
proof -
  let ?ms = "agent_messages rawOutput"
  have "\<not> list_ex (\<lambda>m. data_bearing (fst m)) ?ms"
    using assms(2) by (simp add: list_all_iff list_ex_iff)
  then have f: "formatted_response rawOutput = snd (last ?ms)"
    using assms(1) by (simp add: formatted_response_messages)
  have "last ?ms \<in> set ?ms"
    using assms(1) by simp
  then have "snd (last ?ms) \<noteq> []"
    using agent_messages_text_nonempty [of "fst (last ?ms)" "snd (last ?ms)" rawOutput] by simp
  with f show ?thesis
    by (simp add: composed_reply_def)
qed

text \<open>
  Scenario 2 of the specification.
\<close>

theorem last_message_reply_witness:
  "agent_messages scenario2 \<noteq> [] \<and>
   list_all (\<lambda>m. \<not> data_bearing (fst m)) (agent_messages scenario2) \<and>
   composed_reply scenario2 = lit ''Deviation confirmed.''"
proof -
  have h1: "agent_messages scenario2 \<noteq> []"
    by code_simp
  have h2: "list_all (\<lambda>m. \<not> data_bearing (fst m)) (agent_messages scenario2)"
    by code_simp
  have l: "snd (last (agent_messages scenario2)) = lit ''Deviation confirmed.''"
    by code_simp
  show ?thesis
    using last_message_reply [OF h1 h2] h1 h2 l by simp
qed

section \<open>Replies built from raw lines\<close>

lemma no_tagged_line_no_messages:
  assumes "list_all (\<lambda>l. agent_match l = None) (js_split nl rawOutput)"
  shows "agent_messages rawOutput = []"
  using assms by (simp add: agent_messages_empty_iff list_all_iff line_message_def)

text \<open>
  Claim C3. When no line of a RawOutput matches the tagged format, the ComposedReply is
  the newline-joined lines that are non-blank after trimming, do not start with \<open>User:\<close>
  and contain none of \<open>UserWarning\<close>, \<open>INFO\<close>, \<open>DEBUG\<close>, \<open>Warning:\<close>; when that join
  is empty, as for the empty RawOutput, it is \<open>No response generated\<close>.
\<close>

theorem raw_fallback_reply:
  assumes "list_all (\<lambda>l. agent_match l = None) (js_split nl rawOutput)"
  shows "composed_reply rawOutput =
           (let joined = js_join [nl] (filter keep_raw_line (js_split nl rawOutput))
            in if joined = [] then no_response else joined)"
  using no_tagged_line_no_messages [OF assms]
  by (simp add: composed_reply_def formatted_response_messages raw_fallback_def Let_def)

text \<open>
  Scenarios 3 and 4 of the specification.
\<close>

theorem raw_fallback_reply_witness:
  "list_all (\<lambda>l. agent_match l = None) (js_split nl scenario3) \<and>
   composed_reply scenario3 = lit ''Plain diagnostic line'' \<and>
   list_all (\<lambda>l. agent_match l = None) (js_split nl []) \<and>
   composed_reply [] = no_response"
proof -
  have h3: "list_all (\<lambda>l. agent_match l = None) (js_split nl scenario3)"
    by code_simp
  have j3: "(let joined = js_join [nl] (filter keep_raw_line (js_split nl scenario3))
             in if joined = [] then no_response else joined) = lit ''Plain diagnostic line''"
    by code_simp
  have h4: "list_all (\<lambda>l. agent_match l = None) (js_split nl [])"
    by code_simp
  have j4: "(let joined = js_join [nl] (filter keep_raw_line (js_split nl []))
             in if joined = [] then no_response else joined) = no_response"
    by code_simp
  show ?thesis
    using raw_fallback_reply [OF h3] raw_fallback_reply [OF h4] h3 h4 j3 j4 by simp
qed

text \<open>
  Claim C10. In the raw-line fallback the kept lines are emitted unchanged: when no line
  of a RawOutput matches the tagged format and some line is kept, the lines of the
  ComposedReply are exactly the kept lines of the RawOutput, code unit for code unit, with
  their leading and trailing white space. Trimming only decides whether a line is kept.
\<close>

theorem raw_lines_unchanged:
  assumes "list_all (\<lambda>l. agent_match l = None) (js_split nl rawOutput)"
    and "filter keep_raw_line (js_split nl rawOutput) \<noteq> []"
  shows "js_split nl (composed_reply rawOutput) = filter keep_raw_line (js_split nl rawOutput)"
proof -
  let ?kept = "filter keep_raw_line (js_split nl rawOutput)"
  have "\<forall>l\<in>set ?kept. l \<noteq> []"
    by (simp add: keep_raw_line_nonempty)
  with assms(2) have "js_join [nl] ?kept \<noteq> []"
    by (rule js_join_nonempty)
  then have r: "composed_reply rawOutput = js_join [nl] ?kept"
    using no_tagged_line_no_messages [OF assms(1)]
    by (simp add: composed_reply_def formatted_response_messages raw_fallback_def)
  have "\<forall>l\<in>set ?kept. nl \<notin> set l"
    by (auto dest: js_split_no_sep)
  with assms(2) show ?thesis
    unfolding r by (rule js_split_join)
qed

text \<open>
  Two kept lines with spaces, a tab and a carriage return around them.
\<close>

theorem raw_lines_unchanged_witness:
  "list_all (\<lambda>l. agent_match l = None) (js_split nl padded) \<and>
   filter keep_raw_line (js_split nl padded) \<noteq> [] \<and>
   js_split nl (composed_reply padded) = [lit '' first '', [0x09] @ lit ''second'' @ [0x0D]]"
proof -
  have h1: "list_all (\<lambda>l. agent_match l = None) (js_split nl padded)"
    by code_simp
  have h2: "filter keep_raw_line (js_split nl padded) \<noteq> []"
    by code_simp
  have k: "filter keep_raw_line (js_split nl padded) =
             [lit '' first '', [0x09] @ lit ''second'' @ [0x0D]]"
    by code_simp
  show ?thesis
    using raw_lines_unchanged [OF h1 h2] h1 h2 k by simp
qed

section \<open>Events of the child process\<close>

lemma child_events_data:
  "list_all is_data_event evs \<Longrightarrow>
   child_events (evs @ rest) d e = child_events rest (d @ stdout_text evs) (e @ stderr_text evs)"
proof (induction evs arbitrary: d e)
  case Nil
  then show ?case by simp
next
  case (Cons ev evs)
  then show ?case by (cases ev) simp_all
qed

section \<open>Failure of the external process\<close>

text \<open>
  Claim C4. When the process closes with an exit code other than 0 (null included, the
  code of a process ended by a signal), the handler logs the code and the error output
  and answers with status 500 and one fixed error message. Nothing of what the process
  wrote to standard output reaches the effects: the close listener gives the same effects
  for every RawOutput, and no reply is composed.
\<close>

theorem nonzero_exit_failure:
  assumes "list_all is_data_event evs" and "code \<noteq> Some 0"
  shows "child_events (evs @ Close_event code # later) [] [] =
           [Console_error (Exit_code_log code),
            Console_error (Python_error_log (stderr_text evs)),
            Respond 500 (Error_body (lit ''Failed to process request. Please check server logs.''))] \<and>
         on_close code dataString errorString = on_close code dataString' errorString"
  using assms by (simp add: child_events_data on_close_def)

text \<open>
  A process that wrote to both streams and exited with code 1.
\<close>

theorem nonzero_exit_failure_witness:
  "list_all is_data_event chunked \<and> Some (1::int) \<noteq> Some 0 \<and>
   child_events (chunked @ Close_event (Some 1) # []) [] [] =
     [Console_error (Exit_code_log (Some 1)),
      Console_error (Python_error_log (lit ''UserWarning: slow'')),
      Respond 500 (Error_body (lit ''Failed to process request. Please check server logs.''))] \<and>
   on_close (Some 1) scenario1 [] = on_close (Some 1) [] []"
proof -
  have h1: "list_all is_data_event chunked"
    by code_simp
  have h2: "Some (1::int) \<noteq> Some 0"
    by simp
  have e: "stderr_text chunked = lit ''UserWarning: slow''"
    by code_simp
  show ?thesis
    using nonzero_exit_failure [OF h1 h2, of "[]" scenario1 "[]" "[]"] h1 e by simp
qed

section \<open>The trigger of the data-bearing override\<close>

text \<open>
  Claim C5, as amended. When a data-bearing identifier is the agentName of some
  AgentMessage of a RawOutput, whatever the length of that message's text, the candidate
  reply is the blank-line join of the qualifying texts; when that join is empty the
  ComposedReply is \<open>No response generated\<close>. The AgentMessage sequence holds the tagged
  lines whose text is not \<open>None\<close>.
\<close>

theorem override_trigger:
  assumes "(agentName, text) \<in> set (agent_messages rawOutput)" and "data_bearing agentName"
  shows "formatted_response rawOutput =
           blank_line_join (filter qualifying (map snd (agent_messages rawOutput))) \<and>
         (blank_line_join (filter qualifying (map snd (agent_messages rawOutput))) = [] \<longrightarrow>
            composed_reply rawOutput = no_response)"
proof -
  from assms have "list_ex (\<lambda>m. data_bearing (fst m)) (agent_messages rawOutput)"
    by (force simp: list_ex_iff)
  moreover from assms(1) have "agent_messages rawOutput \<noteq> []"
    by auto
  ultimately show ?thesis
    by (simp add: composed_reply_def formatted_response_messages)
qed

text \<open>
  A single weather message whose text is too short to qualify: the override still applies
  and the empty join becomes the sentinel.
\<close>

theorem override_trigger_witness:
  "(lit ''Weather'', lit ''Cloudy'') \<in> set (agent_messages short_weather) \<and>
   data_bearing (lit ''Weather'') \<and> \<not> qualifying (lit ''Cloudy'') \<and>
   formatted_response short_weather = [] \<and> composed_reply short_weather = no_response"
proof -
  have h1: "(lit ''Weather'', lit ''Cloudy'') \<in> set (agent_messages short_weather)"
    by code_simp
  have h2: "data_bearing (lit ''Weather'')"
    by code_simp
  have q: "\<not> qualifying (lit ''Cloudy'')"
    by code_simp
  have j: "blank_line_join (filter qualifying (map snd (agent_messages short_weather))) = []"
    by code_simp
  show ?thesis
    using override_trigger [OF h1 h2] h1 h2 q j by simp
qed

text \<open>
  A tagged line of a data-bearing agent whose text is \<open>None\<close> does not trigger the
  override: the match is dropped before the trigger is tested, no AgentMessage remains,
  and the reply is the raw line, not the sentinel.
\<close>

theorem tagged_none_counterexample:
  "js_split nl weather_none = [weather_none] \<and>
   agent_match weather_none = Some (lit ''Weather'', lit ''None'') \<and>
   data_bearing (lit ''Weather'') \<and>
   agent_messages weather_none = [] \<and>
   formatted_response weather_none = weather_none \<and>
   composed_reply weather_none \<noteq> no_response"
  by code_simp

text \<open>
  Claim C6. When the only line of a RawOutput that matches the tagged format has the text
  \<open>None\<close>, the match is not in the AgentMessage sequence, the sequence is empty, and the
  ComposedReply is the raw-line fallback under the final guard.
\<close>

theorem none_only_falls_back:
  assumes "filter (\<lambda>l. agent_match l \<noteq> None) (js_split nl rawOutput) = [line]"
    and "agent_match line = Some (agentName, none_text)"
  shows "agent_messages rawOutput = [] \<and> extract_responses (js_split nl rawOutput) = [] \<and>
         composed_reply rawOutput =
           (if raw_fallback rawOutput = [] then no_response else raw_fallback rawOutput)"
proof -
  have "line_message l = None" if l: "l \<in> set (js_split nl rawOutput)" for l
  proof (cases "agent_match l")
    case None
    then show ?thesis by (simp add: line_message_def)
  next
    case (Some m)
    with l have "l \<in> set (filter (\<lambda>l. agent_match l \<noteq> None) (js_split nl rawOutput))"
      by simp
    then have "l = line"
      unfolding assms(1) by simp
    then show ?thesis
      using assms(2) by (simp add: line_message_def)
  qed
  then have e: "agent_messages rawOutput = []"
    by (simp add: agent_messages_empty_iff)
  then show ?thesis
    by (simp add: extract_responses_messages composed_reply_def formatted_response_messages)
qed

text \<open>
  One tagged line with the text \<open>None\<close> and one plain line: both raw lines are the reply.
\<close>

theorem none_only_falls_back_witness:
  "filter (\<lambda>l. agent_match l \<noteq> None) (js_split nl coordinator_none) = [lit ''[Coordinator]: None''] \<and>
   agent_match (lit ''[Coordinator]: None'') = Some (lit ''Coordinator'', none_text) \<and>
   agent_messages coordinator_none = [] \<and>
   composed_reply coordinator_none = lit ''[Coordinator]: None'' @ [nl] @ lit ''plain text''"
proof -
  have h1: "filter (\<lambda>l. agent_match l \<noteq> None) (js_split nl coordinator_none) =
              [lit ''[Coordinator]: None'']"
    by code_simp
  have h2: "agent_match (lit ''[Coordinator]: None'') = Some (lit ''Coordinator'', none_text)"
    by code_simp
  have r: "(if raw_fallback coordinator_none = [] then no_response
            else raw_fallback coordinator_none) =
           lit ''[Coordinator]: None'' @ [nl] @ lit ''plain text''"
    by code_simp
  show ?thesis
    using none_only_falls_back [OF h1 h2] h1 h2 r by simp
qed

text \<open>
  Claim C7. A process that cannot be started (a missing executable, a permission
  denied) is reported by Node through the \<open>'error'\<close> event of the child, for which the
  handler has no listener: the request spawns and then ends in an unhandled error, with
  no response sent. The claim asks for the generic failure response of a non-zero exit.
\<close>

theorem unhandled_spawn_error:
  "chat_handler hello_body None (Child_process [Error_event]) =
     [Spawn (lit ''python'') [JString (lit ''agents/gridpilot_agent.py''), JString (lit ''hello'')],
      Unhandled_error]"
  by code_simp

text \<open>
  Only a \<open>spawn\<close> that throws reaches the \<open>catch\<close> clause of the handler.
\<close>

lemma spawn_throws_caught:
  "chat_handler hello_body None Spawn_throws =
     [Spawn (lit ''python'') [JString (lit ''agents/gridpilot_agent.py''), JString (lit ''hello'')],
      Console_error Backend_error_log,
      Respond 500 (Error_body (lit ''Failed to get response''))]"
  by code_simp

section \<open>The reply as a function of RawOutput\<close>

text \<open>
  Claim C8. The reply is a function of RawOutput alone: a process that exits with code 0
  is answered with status 200 and \<open>composed_reply\<close> of the concatenated standard output,
  so two runs with the same RawOutput get the same ComposedReply, however the output was
  cut into chunks and whatever came on standard error.
\<close>

theorem reply_function_of_raw_output:
  assumes "list_all is_data_event evs" and "list_all is_data_event evs'"
    and "stdout_text evs = stdout_text evs'"
  shows "child_events (evs @ [Close_event (Some 0)]) [] [] =
           [Respond 200 (Response_body (composed_reply (stdout_text evs)))] \<and>
         child_events (evs' @ [Close_event (Some 0)]) [] [] =
           child_events (evs @ [Close_event (Some 0)]) [] []"
  using assms by (simp add: child_events_data on_close_def)

text \<open>
  The same RawOutput in two chunks with a warning on standard error between them, and in
  one chunk.
\<close>

theorem reply_function_of_raw_output_witness:
  "list_all is_data_event chunked \<and> list_all is_data_event unchunked \<and>
   stdout_text chunked = stdout_text unchunked \<and>
   child_events (chunked @ [Close_event (Some 0)]) [] [] =
     [Respond 200 (Response_body (lit ''Deviation confirmed.''))] \<and>
   child_events (unchunked @ [Close_event (Some 0)]) [] [] =
     child_events (chunked @ [Close_event (Some 0)]) [] []"
proof -
  have h1: "list_all is_data_event chunked"
    by code_simp
  have h2: "list_all is_data_event unchunked"
    by code_simp
  have h3: "stdout_text chunked = stdout_text unchunked"
    by code_simp
  have r: "composed_reply (stdout_text chunked) = lit ''Deviation confirmed.''"
    by code_simp
  show ?thesis
    using reply_function_of_raw_output [OF h1 h2 h3] h1 h2 h3 r by simp
qed

section \<open>Validation of the message\<close>

text \<open>
  The falsy values: undefined, null, false, the empty string, +0, -0 and NaN; 1.0,
  -Infinity and the string \<open>0\<close> are truthy.
\<close>

lemma to_boolean_falsy_values:
  "\<not> to_boolean JUndefined" "\<not> to_boolean JNull" "\<not> to_boolean (JBool False)"
  "\<not> to_boolean (JString [])" "\<not> to_boolean (JNumber 0)"
  "\<not> to_boolean (JNumber 0x8000000000000000)" "\<not> to_boolean (JNumber 0x7FF8000000000000)"
  "to_boolean (JNumber 0x3FF0000000000000)" "to_boolean (JNumber 0xFFF0000000000000)"
  "to_boolean (JString (lit ''0''))"
  by code_simp+

text \<open>
  Claim C9. When the \<open>message\<close> property of the JSON body is the empty string, or any
  other falsy value, the endpoint answers with status 400 and \<open>Message is required\<close> and
  does nothing else: no process is spawned, whatever spawning one would have done.
\<close>

theorem falsy_message_rejected:
  assumes "map_of props (lit ''message'') = Some v" and "\<not> to_boolean v"
  shows "chat_handler (JObject props) env_PYTHON_PATH spawned =
           [Respond 400 (Error_body (lit ''Message is required''))]"
  using assms by (simp add: chat_handler_def)

text \<open>
  A body whose message is the empty string.
\<close>

theorem falsy_message_rejected_witness:
  "map_of [(lit ''message'', JString [])] (lit ''message'') = Some (JString []) \<and>
   \<not> to_boolean (JString []) \<and>
   chat_handler empty_message_body None (Child_process (unchunked @ [Close_event (Some 0)])) =
     [Respond 400 (Error_body (lit ''Message is required''))]"
proof -
  have h1: "map_of [(lit ''message'', JString [])] (lit ''message'') = Some (JString [])"
    by simp
  have h2: "\<not> to_boolean (JString [])"
    by simp
  show ?thesis
    using falsy_message_rejected [OF h1 h2] h1 h2 by (simp add: empty_message_body_def)
qed

end
